theory Spec2Isabelle
  imports Main "HOL-Library.Sublist"
begin

section \<open>Text: lines and whitespace\<close>

text \<open>
  JavaScript strings are modelled as \<^typ>\<open>string\<close>; a character stands for one code unit
  in the range 0 to 255. The line feed is the only separator the server splits on.
\<close>

definition nl :: char where
  "nl = CHR 0x0A"

text \<open>
  \<^verbatim>\<open>data.toString().split("\n")\<close>: the pieces between line feeds, in order. A text with
  \<open>n\<close> line feeds has \<open>n + 1\<close> pieces; the empty text has the single piece \<open>""\<close>.
  \<open>split_acc cur s\<close> scans \<open>s\<close> with the piece read so far in \<open>cur\<close>.
\<close>

fun split_acc :: "string \<Rightarrow> string \<Rightarrow> string list" where
  "split_acc cur [] = [cur]"
| "split_acc cur (c # cs) =
     (if c = nl then cur # split_acc [] cs else split_acc (cur @ [c]) cs)"

definition split_nl :: "string \<Rightarrow> string list" where
  "split_nl s = split_acc [] s"

text \<open>
  \<^verbatim>\<open>String.prototype.trim\<close> strips white space and line terminators from both ends.
  Within the code units 0 to 255 these are tab, line feed, vertical tab, form feed,
  carriage return, space and the no-break space.
\<close>

definition js_whitespace :: "char \<Rightarrow> bool" where
  "js_whitespace c \<longleftrightarrow>
     c = CHR 0x09 \<or> c = CHR 0x0A \<or> c = CHR 0x0B \<or> c = CHR 0x0C \<or> c = CHR 0x0D \<or>
     c = CHR 0x20 \<or> c = CHR 0xA0"

definition trim :: "string \<Rightarrow> string" where
  "trim s = rev (dropWhile js_whitespace (rev (dropWhile js_whitespace s)))"

text \<open>\<^verbatim>\<open>if (line.trim())\<close>: a string is truthy when it is not empty.\<close>

definition nonblank :: "string \<Rightarrow> bool" where
  "nonblank line \<longleftrightarrow> trim line \<noteq> []"

text \<open>
  The message units of one \<^verbatim>\<open>data\<close> event, as \<^verbatim>\<open>start\<close> obtains them: the chunk is
  split on its own, and the lines that survive \<^verbatim>\<open>trim\<close> are dispatched untrimmed.
  The handler keeps no text from one event to the next.
\<close>

definition units :: "string \<Rightarrow> string list" where
  "units chunk = filter nonblank (split_nl chunk)"

text \<open>Feeding a sequence of chunks: each \<^verbatim>\<open>data\<close> event is framed independently.\<close>

definition feed :: "string list \<Rightarrow> string list" where
  "feed chunks = concat (map units chunks)"


section \<open>JavaScript values and faults\<close>

text \<open>
  The values that \<^verbatim>\<open>JSON.parse\<close> returns and that the server builds with object literals.
  An object is the list of its own properties in insertion order. Numbers are only copied by
  the server (the correlation id, the error code), never computed with; integers stand for
  them.
\<close>

datatype jsval =
    JUndefined
  | JNull
  | JBool bool
  | JNum int
  | JStr string
  | JArr "jsval list"
  | JObj "(string \<times> jsval) list"

text \<open>
  Errors whose \<^verbatim>\<open>message\<close> the code reads or that leave \<^verbatim>\<open>processMessage\<close>:
  \<open>Error m\<close> is \<^verbatim>\<open>new Error(m)\<close>, \<open>ReferenceError x\<close> is the fault of evaluating an
  identifier \<open>x\<close> that no enclosing scope declares.
\<close>

datatype js_error = Error string | ReferenceError string

fun message :: "js_error \<Rightarrow> string" where
  "message (Error m) = m"
| "message (ReferenceError x) = x @ '' is not defined''"

text \<open>
  The exceptions raised inside the \<^verbatim>\<open>try\<close> block of \<^verbatim>\<open>processMessage\<close>; its \<^verbatim>\<open>catch\<close>
  clause never inspects them. \<open>UnknownTool name\<close> is the \<^verbatim>\<open>throw\<close> that ends
  \<^verbatim>\<open>handleToolCall\<close>.
\<close>

datatype dispatch_exn = SyntaxError | TypeError | UnknownTool jsval

text \<open>
  A promise that is awaited: \<open>None\<close> when it never settles, \<open>Some (Inl e)\<close> when it
  rejects with \<open>e\<close>, \<open>Some (Inr v)\<close> when it fulfils with \<open>v\<close>.
\<close>

type_synonym ('e, 'a) promise = "('e + 'a) option"

definition nullish :: "jsval \<Rightarrow> bool" where
  "nullish v \<longleftrightarrow> v = JUndefined \<or> v = JNull"

text \<open>
  A property read \<^verbatim>\<open>v.k\<close> on a value that is neither \<^verbatim>\<open>undefined\<close> nor \<^verbatim>\<open>null\<close>
  (on those the read throws a \<^verbatim>\<open>TypeError\<close>, see \<open>get_prop\<close>). The server reads only
  \<^verbatim>\<open>method\<close>, \<^verbatim>\<open>id\<close>, \<^verbatim>\<open>params\<close>, \<^verbatim>\<open>name\<close> and \<^verbatim>\<open>arguments\<close>; none of them is inherited
  from a prototype, so the own properties decide, and primitives and arrays have none
  of these.
\<close>

fun property :: "jsval \<Rightarrow> string \<Rightarrow> jsval" where
  "property (JObj kvs) k = (case map_of kvs k of Some v \<Rightarrow> v | None \<Rightarrow> JUndefined)"
| "property v k = JUndefined"

definition get_prop :: "jsval \<Rightarrow> string \<Rightarrow> dispatch_exn + jsval" where
  "get_prop v k = (if nullish v then Inl TypeError else Inr (property v k))"

text \<open>\<^verbatim>\<open>if (v)\<close>: the truthiness of a value.\<close>

fun truthy :: "jsval \<Rightarrow> bool" where
  "truthy JUndefined = False"
| "truthy JNull = False"
| "truthy (JBool b) = b"
| "truthy (JNum n) = (n \<noteq> 0)"
| "truthy (JStr s) = (s \<noteq> [])"
| "truthy (JArr xs) = True"
| "truthy (JObj kvs) = True"

text \<open>\<^verbatim>\<open>a || b\<close> on strings: the empty string is falsy.\<close>

definition str_or :: "string \<Rightarrow> string \<Rightarrow> string" where
  "str_or a b = (if a \<noteq> [] then a else b)"

text \<open>\<^verbatim>\<open>a || b\<close> where \<open>a\<close> is a string that may be \<^verbatim>\<open>undefined\<close>.\<close>

definition opt_or :: "string option \<Rightarrow> string \<Rightarrow> string" where
  "opt_or a b = (case a of None \<Rightarrow> b | Some s \<Rightarrow> str_or s b)"

text \<open>The decimal text of a number inside a template literal; \<^verbatim>\<open>null\<close> prints as such.\<close>

definition digits10 :: string where
  "digits10 = ''0123456789''"

function show_nat :: "nat \<Rightarrow> string" where
  "show_nat n =
     (if n < 10 then [digits10 ! n] else show_nat (n div 10) @ [digits10 ! (n mod 10)])"
  by pat_completeness auto
termination
  by (relation "measure id") auto

declare show_nat.simps [simp del]

definition show_int :: "int \<Rightarrow> string" where
  "show_int i = (if i < 0 then CHR ''-'' # show_nat (nat (- i)) else show_nat (nat i))"

definition show_code :: "int option \<Rightarrow> string" where
  "show_code code = (case code of None \<Rightarrow> ''null'' | Some i \<Rightarrow> show_int i)"

section \<open>The host the simple server runs on\<close>

text \<open>What \<^verbatim>\<open>fs.existsSync\<close> and \<^verbatim>\<open>fs.statSync(p).isDirectory()\<close> observe of a path.\<close>

datatype fs_entry = Absent | RegularFile | Directory

text \<open>
  The events of a spawned child that the server listens to, in the order they are
  emitted: data on its standard output and standard error, \<^verbatim>\<open>close\<close> with the exit code
  (\<^verbatim>\<open>null\<close> when a signal ended the process), and \<^verbatim>\<open>error\<close> with the error's message.
\<close>

datatype child_event =
    StdoutData string
  | StderrData string
  | CloseEv "int option"
  | ErrorEv string

text \<open>
  Everything outside the source file that its functions consult: \<^verbatim>\<open>JSON.parse\<close>
  (\<open>None\<close> when it throws a \<^verbatim>\<open>SyntaxError\<close>), the file system,
  \<^verbatim>\<open>process.env.PROJECT_DIR\<close>, \<^verbatim>\<open>process.cwd()\<close>, and
  \<^verbatim>\<open>spawn(command, args, {cwd})\<close> as the events of the child it starts. The diagnostic
  lines that the server prints with \<^verbatim>\<open>console.error\<close> are left out.
\<close>

record host =
  JSON_parse :: "string \<Rightarrow> jsval option"
  path_kind :: "string \<Rightarrow> fs_entry"
  env_PROJECT_DIR :: "string option"
  process_cwd :: string
  spawn :: "string \<Rightarrow> string list \<Rightarrow> string \<Rightarrow> child_event list"

section \<open>The simple server: registry and command executor\<close>

definition tool_descriptor :: "string \<Rightarrow> string \<Rightarrow> jsval" where
  "tool_descriptor name description =
     JObj [(''name'', JStr name), (''description'', JStr description),
           (''inputSchema'', JObj [(''type'', JStr ''object''), (''properties'', JObj []),
                                   (''required'', JArr [])])]"

text \<open>\<^verbatim>\<open>this.tools\<close>, set once by the constructor.\<close>

definition tools :: "jsval list" where
  "tools =
     [tool_descriptor ''run_ui_tests'' ''Run all Playwright UI tests with list reporter'',
      tool_descriptor ''run_accessibility_tests''
        ''Run only accessibility tests with JSON reporter'']"

definition tool_names :: "jsval list" where
  "tool_names = map (\<lambda>t. property t ''name'') tools"

text \<open>
  The identifiers that resolve inside the functions of \<^verbatim>\<open>index.js\<close> beyond their own
  parameters and locals: the two imports, the class and the constant of the module, and the
  globals the file uses. The file is an ECMAScript module (it starts with \<^verbatim>\<open>import\<close>
  declarations), and such a module has no binding for \<^verbatim>\<open>require\<close>: that name exists only
  in CommonJS modules, and nothing in the file declares it.
\<close>

definition module_scope :: "string list" where
  "module_scope =
     [''spawn'', ''readFileSync'', ''SimpleMCPServer'', ''server'',
      ''process'', ''console'', ''JSON'', ''Promise'', ''Error'']"

text \<open>
  \<^verbatim>\<open>validateProjectDir\<close> starts with \<^verbatim>\<open>const fs = require("fs")\<close>. Evaluating an identifier
  that does not resolve throws a \<^verbatim>\<open>ReferenceError\<close>; the two checks on the directory come
  after it.
\<close>

definition validateProjectDir :: "host \<Rightarrow> string \<Rightarrow> js_error + unit" where
  "validateProjectDir h projectDir =
     (if ''require'' \<notin> set module_scope then Inl (ReferenceError ''require'')
      else if path_kind h projectDir = Absent
        then Inl (Error (''Project directory does not exist: '' @ projectDir))
      else if path_kind h projectDir \<noteq> Directory
        then Inl (Error (''Path is not a directory: '' @ projectDir))
      else Inr ())"

record run_options =
  reporter :: "string option"
  testMatch :: "string option"

definition playwright_args :: "run_options \<Rightarrow> string list" where
  "playwright_args options =
     [''test'']
     @ (case reporter options of
          Some r \<Rightarrow> if r \<noteq> [] then [''--reporter'', r] else []
        | None \<Rightarrow> [])
     @ (case testMatch options of
          Some m \<Rightarrow> if m \<noteq> [] then [m] else []
        | None \<Rightarrow> [])"

text \<open>
  The promise built in \<^verbatim>\<open>runPlaywrightTests\<close>, driven by the child's events. \<open>output\<close> and
  \<open>errorOutput\<close> accumulate the data events; the first \<^verbatim>\<open>close\<close> or \<^verbatim>\<open>error\<close> settles the
  promise, and later events cannot change it. A child that emits neither leaves it pending.
  The fulfilment value \<^verbatim>\<open>{ output }\<close> is modelled by its one field.
\<close>

fun await_child :: "string \<Rightarrow> string \<Rightarrow> child_event list \<Rightarrow> (js_error, string) promise" where
  "await_child output errorOutput [] = None"
| "await_child output errorOutput (StdoutData d # es) = await_child (output @ d) errorOutput es"
| "await_child output errorOutput (StderrData d # es) = await_child output (errorOutput @ d) es"
| "await_child output errorOutput (CloseEv code # es) =
     Some (if code = Some 0 then Inr (str_or output ''Tests completed successfully'')
           else Inl (Error (''Playwright tests failed with code '' @ show_code code @ '':''
                            @ [nl] @ str_or errorOutput output)))"
| "await_child output errorOutput (ErrorEv m # es) =
     Some (Inl (Error (''Failed to run Playwright tests: '' @ m)))"

definition runPlaywrightTests :: "host \<Rightarrow> string \<Rightarrow> run_options \<Rightarrow> (js_error, string) promise" where
  "runPlaywrightTests h projectDir options =
     (case validateProjectDir h projectDir of
        Inl e \<Rightarrow> Some (Inl e)
      | Inr _ \<Rightarrow>
          await_child [] [] (spawn h ''npx'' (''playwright'' # playwright_args options) projectDir))"

text \<open>\<^verbatim>\<open>process.env.PROJECT_DIR || process.cwd()\<close>\<close>

definition project_dir :: "host \<Rightarrow> string" where
  "project_dir h = opt_or (env_PROJECT_DIR h) (process_cwd h)"

definition text_block :: "string \<Rightarrow> jsval" where
  "text_block s = JObj [(''type'', JStr ''text''), (''text'', JStr s)]"

text \<open>
  \<^verbatim>\<open>handleToolCall(name, args)\<close>. Each branch awaits the executor inside \<^verbatim>\<open>try\<close>; a
  rejection is caught and turned into a payload with \<^verbatim>\<open>isError: true\<close>. A name that matches
  no branch reaches the final \<^verbatim>\<open>throw\<close>. The parameter \<open>args\<close> is not read.
\<close>

definition handleToolCall :: "host \<Rightarrow> jsval \<Rightarrow> jsval \<Rightarrow> (dispatch_exn, jsval) promise" where
  "handleToolCall h name args =
     (if name = JStr ''run_ui_tests'' then
        (case runPlaywrightTests h (project_dir h)
                \<lparr>reporter = Some ''list'', testMatch = Some ''tests/ui.spec.ts''\<rparr> of
           None \<Rightarrow> None
         | Some (Inr output) \<Rightarrow>
             Some (Inr (JObj [(''content'',
               JArr [text_block (''UI Tests completed!'' @ [nl, nl] @ output)])]))
         | Some (Inl error) \<Rightarrow>
             Some (Inr (JObj [(''content'',
               JArr [text_block (''Error running UI tests: '' @ message error)]),
               (''isError'', JBool True)])))
      else if name = JStr ''run_accessibility_tests'' then
        (case runPlaywrightTests h (project_dir h)
                \<lparr>reporter = Some ''json'', testMatch = Some ''tests/accessibility.spec.ts''\<rparr> of
           None \<Rightarrow> None
         | Some (Inr output) \<Rightarrow>
             Some (Inr (JObj [(''content'',
               JArr [text_block (''Accessibility Tests completed!'' @ [nl, nl] @ output)])]))
         | Some (Inl error) \<Rightarrow>
             Some (Inr (JObj [(''content'',
               JArr [text_block (''Error running accessibility tests: '' @ message error)]),
               (''isError'', JBool True)])))
      else Some (Inl (UnknownTool name)))"

section \<open>The simple server: dispatcher\<close>

definition rpc_result :: "jsval \<Rightarrow> jsval \<Rightarrow> jsval" where
  "rpc_result ident result = JObj [(''jsonrpc'', JStr ''2.0''), (''id'', ident), (''result'', result)]"

definition rpc_error :: "jsval \<Rightarrow> int \<Rightarrow> string \<Rightarrow> jsval" where
  "rpc_error ident code msg =
     JObj [(''jsonrpc'', JStr ''2.0''), (''id'', ident),
           (''error'', JObj [(''code'', JNum code), (''message'', JStr msg)])]"

definition initialize_result :: jsval where
  "initialize_result =
     JObj [(''protocolVersion'', JStr ''2024-11-05''),
           (''capabilities'', JObj [(''tools'', JObj [])]),
           (''serverInfo'', JObj [(''name'', JStr ''playwright-mcp-server''),
                                  (''version'', JStr ''1.0.0'')])]"

text \<open>
  The \<^verbatim>\<open>try\<close> block of \<^verbatim>\<open>processMessage\<close>. \<^verbatim>\<open>parsed.method\<close> throws when \<open>parsed\<close> is
  \<^verbatim>\<open>null\<close>; \<^verbatim>\<open>parsed.params.name\<close> throws when \<^verbatim>\<open>parsed.params\<close> is missing or \<^verbatim>\<open>null\<close>.
\<close>

definition try_block :: "host \<Rightarrow> string \<Rightarrow> (dispatch_exn, jsval) promise" where
  "try_block h msg =
     (case JSON_parse h msg of
        None \<Rightarrow> Some (Inl SyntaxError)
      | Some parsed \<Rightarrow>
          (case get_prop parsed ''method'' of
             Inl e \<Rightarrow> Some (Inl e)
           | Inr method \<Rightarrow>
               if method = JStr ''initialize'' then
                 Some (Inr (rpc_result (property parsed ''id'') initialize_result))
               else if method = JStr ''tools/list'' then
                 Some (Inr (rpc_result (property parsed ''id'') (JObj [(''tools'', JArr tools)])))
               else if method = JStr ''tools/call'' then
                 (case get_prop (property parsed ''params'') ''name'' of
                    Inl e \<Rightarrow> Some (Inl e)
                  | Inr name \<Rightarrow>
                      (case handleToolCall h name (property (property parsed ''params'') ''arguments'') of
                         None \<Rightarrow> None
                       | Some (Inl e) \<Rightarrow> Some (Inl e)
                       | Some (Inr result) \<Rightarrow> Some (Inr (rpc_result (property parsed ''id'') result))))
               else Some (Inr (rpc_error (property parsed ''id'') (- 32601) ''Method not found''))))"

text \<open>
  The \<^verbatim>\<open>catch (error)\<close> clause of \<^verbatim>\<open>processMessage\<close>. Its object literal evaluates
  \<^verbatim>\<open>parsed?.id\<close>, but \<open>parsed\<close> is declared with \<^verbatim>\<open>const\<close> inside the \<^verbatim>\<open>try\<close> block: the
  binding belongs to that block and is not visible in the \<^verbatim>\<open>catch\<close> block beside it. The
  names in scope there are \<open>error\<close>, \<open>message\<close> and the module's \<open>spawn\<close>, \<open>readFileSync\<close>,
  \<open>SimpleMCPServer\<close> and \<open>server\<close>; the file declares no other \<open>parsed\<close>. The operator \<^verbatim>\<open>?.\<close>
  guards against a value that is \<^verbatim>\<open>null\<close> or \<^verbatim>\<open>undefined\<close>, not against an identifier
  that does not resolve: evaluating \<open>parsed\<close> throws a \<^verbatim>\<open>ReferenceError\<close> first, so the
  clause never reaches its \<^verbatim>\<open>return\<close>, whatever was caught.
\<close>

definition catch_clause :: "dispatch_exn \<Rightarrow> js_error + jsval" where
  "catch_clause error = Inl (ReferenceError ''parsed'')"

definition processMessage :: "host \<Rightarrow> string \<Rightarrow> (js_error, jsval) promise" where
  "processMessage h msg =
     (case try_block h msg of
        None \<Rightarrow> None
      | Some (Inr response) \<Rightarrow> Some (Inr response)
      | Some (Inl error) \<Rightarrow> Some (catch_clause error))"

section \<open>The simple server: the handler of one input event\<close>

text \<open>
  What the \<^verbatim>\<open>data\<close> handler of \<^verbatim>\<open>start\<close> does, in order: \<open>Dispatched line\<close> is a call
  \<^verbatim>\<open>processMessage(line)\<close>, \<open>Wrote r\<close> is \<^verbatim>\<open>process.stdout.write(JSON.stringify(r) + "\n")\<close>.
\<close>

datatype effect = Dispatched string | Wrote jsval

text \<open>
  How the handler's own promise ends: the loop ran through, an awaited call rejected (nothing
  catches it: the rejection is unhandled), or an awaited call never settled.
\<close>

datatype handler_end = Finished | Unhandled js_error | Suspended

fun for_lines :: "host \<Rightarrow> string list \<Rightarrow> effect list \<times> handler_end" where
  "for_lines h [] = ([], Finished)"
| "for_lines h (line # rest) =
     (if nonblank line then
        (case processMessage h line of
           None \<Rightarrow> ([Dispatched line], Suspended)
         | Some (Inl e) \<Rightarrow> ([Dispatched line], Unhandled e)
         | Some (Inr response) \<Rightarrow>
             (case for_lines h rest of
                (later, fin) \<Rightarrow>
                  (Dispatched line # (if truthy response then [Wrote response] else []) @ later,
                   fin)))
      else for_lines h rest)"

definition on_data :: "host \<Rightarrow> string \<Rightarrow> effect list \<times> handler_end" where
  "on_data h chunk = for_lines h (split_nl chunk)"

section \<open>The tool server: handlers over \<^verbatim>\<open>exec\<close>\<close>

text \<open>
  \<^verbatim>\<open>err.code\<close> of the error that \<^verbatim>\<open>exec\<close> passes to its callback: the exit status of the
  command, a system error name when the command could not be started, or \<^verbatim>\<open>null\<close> when a
  signal ended it.
\<close>

datatype exec_code = ExitStatus int | SystemError string | NoCode

text \<open>The arguments of the callback \<^verbatim>\<open>(err, stdout, stderr)\<close>; \<open>err = None\<close> is \<^verbatim>\<open>null\<close>.\<close>

record exec_outcome =
  err :: "exec_code option"
  stdout :: string
  stderr :: string

datatype settled = Resolved jsval | Rejected jsval

text \<open>
  What a handler's promise executor does: it settles at once, or it calls
  \<^verbatim>\<open>exec(command, callback)\<close> and the callback settles the promise.
\<close>

datatype invocation = Settle settled | Exec string "exec_outcome \<Rightarrow> settled"

text \<open>The declared parameters of the tools are strings; a missing one is \<^verbatim>\<open>undefined\<close>.\<close>

type_synonym tool_args = "string \<Rightarrow> string option"

definition text_payload :: "string \<Rightarrow> jsval" where
  "text_payload s = JObj [(''content'', JArr [text_block s])]"

text \<open>The callback shape shared by every handler but the audit: \<^verbatim>\<open>if (err) reject else resolve\<close>.\<close>

definition on_exit :: "(exec_outcome \<Rightarrow> string) \<Rightarrow> (exec_outcome \<Rightarrow> string) \<Rightarrow> exec_outcome \<Rightarrow> settled" where
  "on_exit failed passed r =
     (if err r \<noteq> None then Rejected (text_payload (failed r))
      else Resolved (text_payload (passed r)))"

definition run_ui_tests :: "tool_args \<Rightarrow> invocation" where
  "run_ui_tests args =
     Exec ''npx playwright test --reporter=list''
       (on_exit (\<lambda>r. ''Error: '' @ stderr r) (\<lambda>r. stdout r))"

definition run_accessibility_test :: "tool_args \<Rightarrow> invocation" where
  "run_accessibility_test args =
     Exec ''npx playwright test tests/accessibility.spec.ts --reporter=json''
       (on_exit (\<lambda>r. ''Error: '' @ stderr r) (\<lambda>r. stdout r))"

text \<open>
  The audit's callback rejects only when there is an error whose code is not the number 1
  (\<^verbatim>\<open>err && err.code !== 1\<close>).
\<close>

definition security_audit :: "tool_args \<Rightarrow> invocation" where
  "security_audit args =
     Exec ''npm audit --audit-level=moderate --json''
       (\<lambda>r. if err r \<noteq> None \<and> err r \<noteq> Some (ExitStatus 1)
            then Rejected (text_payload (''Audit failed: '' @ stderr r))
            else Resolved (text_payload (str_or (stdout r) ''No security vulnerabilities found'')))"

definition github_workflow_validate :: "tool_args \<Rightarrow> invocation" where
  "github_workflow_validate args =
     (let workflowPath = opt_or (args ''workflow_file'') ''.github/workflows/*.yml''
      in Exec (''npx js-yaml '' @ workflowPath)
           (on_exit (\<lambda>r. ''Workflow validation failed: '' @ stderr r)
                    (\<lambda>r. ''Workflow validation successful:'' @ [nl] @ stdout r)))"

definition code_quality_check :: "tool_args \<Rightarrow> invocation" where
  "code_quality_check args =
     (let files = opt_or (args ''files'') ''src/**/*.js''
      in Exec (''npx eslint '' @ files @ '' --format=json'')
           (on_exit (\<lambda>r. ''ESLint found issues:'' @ [nl] @ stdout r)
                    (\<lambda>r. ''Code quality check passed - no issues found'')))"

definition performance_test :: "tool_args \<Rightarrow> invocation" where
  "performance_test args =
     (if opt_or (args ''url'') [] = [] then
        Settle (Rejected (text_payload ''URL is required for performance testing''))
      else
        (let format = opt_or (args ''output'') ''json''
         in Exec (''npx lighthouse '' @ opt_or (args ''url'') [] @ '' --output='' @ format
                  @ '' --output-path=./lighthouse-report.'' @ format)
              (on_exit (\<lambda>r. ''Performance test failed: '' @ stderr r)
                       (\<lambda>r. ''Performance test completed:'' @ [nl] @ stdout r))))"

definition docker_build_test :: "tool_args \<Rightarrow> invocation" where
  "docker_build_test args =
     (let dockerfile = opt_or (args ''dockerfile'') ''./Dockerfile'';
          imageName = opt_or (args ''image_name'') ''test-image''
      in Exec (''docker build -f '' @ dockerfile @ '' -t '' @ imageName @ '' .'')
           (on_exit (\<lambda>r. ''Docker build failed: '' @ stderr r)
                    (\<lambda>r. ''Docker build successful:'' @ [nl] @ stdout r)))"

definition rust_check :: "tool_args \<Rightarrow> invocation" where
  "rust_check args =
     (let manifestPath = opt_or (args ''manifest_path'') ''./Cargo.toml''
      in Exec (''cargo check --manifest-path '' @ manifestPath)
           (on_exit (\<lambda>r. ''Rust check failed:'' @ [nl] @ stderr r)
                    (\<lambda>r. ''Rust check passed:'' @ [nl] @ stdout r)))"

definition rust_test :: "tool_args \<Rightarrow> invocation" where
  "rust_test args =
     (let manifestPath = opt_or (args ''manifest_path'') ''./Cargo.toml'';
          testFilter = (if opt_or (args ''test_name'') [] \<noteq> []
                        then ''--test '' @ opt_or (args ''test_name'') [] else [])
      in Exec (''cargo test --manifest-path '' @ manifestPath @ '' '' @ testFilter)
           (on_exit (\<lambda>r. ''Rust tests failed:'' @ [nl] @ stderr r)
                    (\<lambda>r. ''Rust tests passed:'' @ [nl] @ stdout r)))"

definition rust_fmt_check :: "tool_args \<Rightarrow> invocation" where
  "rust_fmt_check args =
     (let manifestPath = opt_or (args ''manifest_path'') ''./Cargo.toml''
      in Exec (''cargo fmt --manifest-path '' @ manifestPath @ '' --check'')
           (on_exit (\<lambda>r. ''Rust formatting check failed:'' @ [nl] @ stderr r)
                    (\<lambda>r. ''Rust code is properly formatted'')))"

definition tauri_build :: "tool_args \<Rightarrow> invocation" where
  "tauri_build args =
     (let configPath = opt_or (args ''config_path'') ''./src-tauri/tauri.conf.json'';
          target = (if opt_or (args ''target'') [] \<noteq> []
                    then ''--target '' @ opt_or (args ''target'') [] else [])
      in Exec (''npx tauri build --config '' @ configPath @ '' '' @ target)
           (on_exit (\<lambda>r. ''Tauri build failed:'' @ [nl] @ stderr r)
                    (\<lambda>r. ''Tauri build successful:'' @ [nl] @ stdout r)))"

definition tauri_dev :: "tool_args \<Rightarrow> invocation" where
  "tauri_dev args =
     (let configPath = opt_or (args ''config_path'') ''./src-tauri/tauri.conf.json''
      in Exec (''npx tauri dev --config '' @ configPath)
           (on_exit (\<lambda>r. ''Tauri dev server failed:'' @ [nl] @ stderr r)
                    (\<lambda>r. ''Tauri dev server started:'' @ [nl] @ stdout r)))"

definition typescript_check :: "tool_args \<Rightarrow> invocation" where
  "typescript_check args =
     (let tsconfig = opt_or (args ''tsconfig'') ''./tsconfig.json''
      in Exec (''npx tsc --noEmit --project '' @ tsconfig)
           (on_exit (\<lambda>r. ''TypeScript check failed:'' @ [nl] @ stderr r)
                    (\<lambda>r. ''TypeScript type checking passed'')))"

text \<open>The calls of \<^verbatim>\<open>server.registerTool\<close>, in the order of the file.\<close>

definition registered :: "(string \<times> (tool_args \<Rightarrow> invocation)) list" where
  "registered =
     [(''run_ui_tests'', run_ui_tests),
      (''run_accessibility_test'', run_accessibility_test),
      (''security_audit'', security_audit),
      (''github_workflow_validate'', github_workflow_validate),
      (''code_quality_check'', code_quality_check),
      (''performance_test'', performance_test),
      (''docker_build_test'', docker_build_test),
      (''rust_check'', rust_check),
      (''rust_test'', rust_test),
      (''rust_fmt_check'', rust_fmt_check),
      (''tauri_build'', tauri_build),
      (''tauri_dev'', tauri_dev),
      (''typescript_check'', typescript_check)]"

text \<open>
  Running an invocation against \<^verbatim>\<open>exec\<close>, given as the outcome of each command line
  (\<open>None\<close> when the command never ends, so that the callback is never called).
\<close>

definition invoke :: "(string \<Rightarrow> exec_outcome option) \<Rightarrow> invocation \<Rightarrow> settled option" where
  "invoke ex call =
     (case call of
        Settle s \<Rightarrow> Some s
      | Exec command callback \<Rightarrow> map_option callback (ex command))"

section \<open>Vocabulary of the statements\<close>

text \<open>Whether \<^verbatim>\<open>processMessage\<close> returns a response for a line, and that response.\<close>

definition answered :: "host \<Rightarrow> string \<Rightarrow> bool" where
  "answered h line = (case processMessage h line of Some (Inr r) \<Rightarrow> True | _ \<Rightarrow> False)"

definition answer :: "host \<Rightarrow> string \<Rightarrow> jsval" where
  "answer h line = (case processMessage h line of Some (Inr r) \<Rightarrow> r | _ \<Rightarrow> JUndefined)"

section \<open>A sample host\<close>

text \<open>
  A host for concrete runs. Its \<^verbatim>\<open>JSON.parse\<close> is tabulated on four request lines, with
  the values they parse to; the only other text given to it below is \<^verbatim>\<open>not json\<close>, on
  which it throws. The project directory exists, and a child started by \<^verbatim>\<open>npx\<close> in it
  emits the given events.
\<close>

definition list_request :: string where
  \<open>list_request = ''{"jsonrpc":"2.0","id":1,"method":"tools/list","params":{}}''\<close>

definition unknown_tool_request :: string where
  \<open>unknown_tool_request =
     ''{"jsonrpc":"2.0","id":2,"method":"tools/call","params":{"name":"nonexistent_tool","arguments":{}}}''\<close>

definition ui_request :: string where
  \<open>ui_request =
     ''{"jsonrpc":"2.0","id":3,"method":"tools/call","params":{"name":"run_ui_tests","arguments":{}}}''\<close>

definition other_request :: string where
  \<open>other_request = ''{"jsonrpc":"2.0","id":4,"method":"resources/list"}''\<close>

definition sample_requests :: "(string \<times> jsval) list" where
  "sample_requests =
     [(list_request,
       JObj [(''jsonrpc'', JStr ''2.0''), (''id'', JNum 1), (''method'', JStr ''tools/list''),
             (''params'', JObj [])]),
      (unknown_tool_request,
       JObj [(''jsonrpc'', JStr ''2.0''), (''id'', JNum 2), (''method'', JStr ''tools/call''),
             (''params'', JObj [(''name'', JStr ''nonexistent_tool''), (''arguments'', JObj [])])]),
      (ui_request,
       JObj [(''jsonrpc'', JStr ''2.0''), (''id'', JNum 3), (''method'', JStr ''tools/call''),
             (''params'', JObj [(''name'', JStr ''run_ui_tests''), (''arguments'', JObj [])])]),
      (other_request,
       JObj [(''jsonrpc'', JStr ''2.0''), (''id'', JNum 4), (''method'', JStr ''resources/list'')])]"

definition sample_host :: "child_event list \<Rightarrow> host" where
  "sample_host events =
     \<lparr>JSON_parse = map_of sample_requests,
      path_kind = (\<lambda>p. if p = ''/srv/app'' then Directory else Absent),
      env_PROJECT_DIR = Some ''/srv/app'',
      process_cwd = ''/'',
      spawn = (\<lambda>command args dir. if command = ''npx'' \<and> dir = ''/srv/app'' then events else [])\<rparr>"

section \<open>Framing lemmas\<close>

lemma split_acc_nonempty: "split_acc cur s \<noteq> []"
  by (induction s arbitrary: cur) auto

lemma split_acc_append_nl:
  "split_acc cur (a @ nl # b) = split_acc cur a @ split_acc [] b"
  by (induction a arbitrary: cur) auto

lemma split_nl_append_nl: "split_nl (a @ nl # b) = split_nl a @ split_nl b"
  by (simp add: split_nl_def split_acc_append_nl)

lemma trim_Nil: "trim [] = []"
  by (simp add: trim_def)

lemma blank_Nil: "\<not> nonblank []"
  by (simp add: nonblank_def trim_Nil)

lemma units_Nil: "units [] = []"
  by (simp add: units_def split_nl_def blank_Nil)

lemma units_append_nl: "units (a @ nl # b) = units a @ units b"
  by (simp add: units_def split_nl_append_nl)

lemma units_snoc_nl: "units (a @ [nl]) = units a"
  using units_append_nl [of a "[]"] by (simp add: units_Nil)

lemma units_cons_nl: "units (nl # b) = units b"
  using units_append_nl [of "[]" b] by (simp add: units_Nil)

text \<open>
  C1 (amended). When the boundary between two chunks falls on a line boundary (the first
  chunk is empty or ends with a line feed, or the second is empty or starts with one),
  feeding the two chunks yields the same message units, in the same order, as feeding
  their concatenation as one chunk. Nothing is carried over from one chunk to the next.
\<close>

theorem feed_split_at_line_boundary:
  assumes "c1 = [] \<or> last c1 = nl \<or> c2 = [] \<or> hd c2 = nl"
  shows "feed [c1, c2] = feed [c1 @ c2]"
proof -
  consider (e1) "c1 = []" | (e2) "c2 = []"
    | (l1) "c1 \<noteq> []" "last c1 = nl" | (h2) "c2 \<noteq> []" "hd c2 = nl"
    using assms by blast
  then have "units c1 @ units c2 = units (c1 @ c2)"
  proof cases
    case e1
    then show ?thesis by (simp add: units_Nil)
  next
    case e2
    then show ?thesis by (simp add: units_Nil)
  next
    case l1
    then obtain a where a: "c1 = a @ [nl]"
      by (metis append_butlast_last_id)
    have "units (c1 @ c2) = units a @ units c2"
      using units_append_nl [of a c2] by (simp add: a)
    then show ?thesis by (simp add: a units_snoc_nl)
  next
    case h2
    then obtain b where b: "c2 = nl # b"
      by (cases c2) auto
    show ?thesis by (simp add: b units_append_nl units_cons_nl)
  qed
  then show ?thesis by (simp add: feed_def)
qed

theorem feed_split_at_line_boundary_witness:
  "feed [''ab'' @ [nl], ''cd'' @ [nl]] = feed [(''ab'' @ [nl]) @ (''cd'' @ [nl])]
   \<and> feed [''ab'' @ [nl], ''cd'' @ [nl]] = [''ab'', ''cd'']"
proof -
  have h: "''ab'' @ [nl] = [] \<or> last (''ab'' @ [nl]) = nl \<or> ''cd'' @ [nl] = [] \<or> hd (''cd'' @ [nl]) = nl"
    by simp
  have v: "feed [''ab'' @ [nl], ''cd'' @ [nl]] = [''ab'', ''cd'']"
    by (simp add: feed_def units_def split_nl_def nonblank_def trim_def js_whitespace_def nl_def)
  show ?thesis using feed_split_at_line_boundary [OF h] v by simp
qed

text \<open>
  C1 (as stated) fails: a chunk boundary inside a message yields the two fragments as two
  units, where the concatenation fed as one chunk yields the one message.
\<close>

theorem feed_split_inside_message_counterexample:
  "feed [''ab'', ''c'' @ [nl]] = [''ab'', ''c''] \<and> feed [''ab'' @ (''c'' @ [nl])] = [''abc'']
   \<and> feed [''ab'', ''c'' @ [nl]] \<noteq> feed [''ab'' @ (''c'' @ [nl])]"
  by (simp add: feed_def units_def split_nl_def nonblank_def trim_def js_whitespace_def nl_def)

section \<open>Facts about the sample host\<close>

lemma sample_parse_garbage: "JSON_parse (sample_host es) ''not json'' = None"
  by (simp add: sample_host_def sample_requests_def list_request_def unknown_tool_request_def
      ui_request_def other_request_def)

lemma sample_parse_list:
  "JSON_parse (sample_host es) list_request =
     Some (JObj [(''jsonrpc'', JStr ''2.0''), (''id'', JNum 1), (''method'', JStr ''tools/list''),
                 (''params'', JObj [])])"
  by (simp add: sample_host_def sample_requests_def)

lemma sample_parse_unknown_tool:
  "JSON_parse (sample_host es) unknown_tool_request =
     Some (JObj [(''jsonrpc'', JStr ''2.0''), (''id'', JNum 2), (''method'', JStr ''tools/call''),
       (''params'', JObj [(''name'', JStr ''nonexistent_tool''), (''arguments'', JObj [])])])"
  by (simp add: sample_host_def sample_requests_def list_request_def unknown_tool_request_def)

lemma sample_parse_ui:
  "JSON_parse (sample_host es) ui_request =
     Some (JObj [(''jsonrpc'', JStr ''2.0''), (''id'', JNum 3), (''method'', JStr ''tools/call''),
       (''params'', JObj [(''name'', JStr ''run_ui_tests''), (''arguments'', JObj [])])])"
  by (simp add: sample_host_def sample_requests_def list_request_def unknown_tool_request_def
      ui_request_def)

lemma sample_parse_other:
  "JSON_parse (sample_host es) other_request =
     Some (JObj [(''jsonrpc'', JStr ''2.0''), (''id'', JNum 4), (''method'', JStr ''resources/list'')])"
  by (simp add: sample_host_def sample_requests_def list_request_def unknown_tool_request_def
      ui_request_def other_request_def)

lemma sample_project_dir: "project_dir (sample_host es) = ''/srv/app''"
  by (simp add: project_dir_def sample_host_def opt_or_def str_or_def)

lemma sample_path_kind: "path_kind (sample_host es) ''/srv/app'' = Directory"
  by (simp add: sample_host_def)

lemma sample_spawn: "spawn (sample_host es) ''npx'' argv ''/srv/app'' = es"
  by (simp add: sample_host_def)

section \<open>The dispatcher\<close>

lemma tool_names_eq: "tool_names = [JStr ''run_ui_tests'', JStr ''run_accessibility_tests'']"
  by (simp add: tool_names_def tools_def tool_descriptor_def)

lemma handleToolCall_unknown:
  "name \<notin> set tool_names \<Longrightarrow> handleToolCall h name args = Some (Inl (UnknownTool name))"
  by (auto simp add: tool_names_eq handleToolCall_def)

lemma method_not_nullish: "property parsed k = JStr s \<Longrightarrow> \<not> nullish parsed"
  by (auto simp add: nullish_def)

text \<open>
  C2. A unit that fails to parse should be answered with the error response -32700 and an
  absent id. The code does not get there: \<^verbatim>\<open>JSON.parse\<close> throws, the \<^verbatim>\<open>catch\<close> clause
  faults on \<^verbatim>\<open>parsed?.id\<close>, and \<^verbatim>\<open>processMessage\<close> rejects with a \<^verbatim>\<open>ReferenceError\<close>.
  In the \<^verbatim>\<open>data\<close> handler nothing is written for the line, the rest of the chunk is not
  dispatched, and the rejection is left unhandled.
\<close>

theorem parse_failure_escapes:
  assumes "JSON_parse h line = None"
  shows "processMessage h line = Some (Inl (ReferenceError ''parsed''))
         \<and> (nonblank line \<longrightarrow>
              for_lines h (line # rest) = ([Dispatched line], Unhandled (ReferenceError ''parsed'')))"
  using assms by (simp add: processMessage_def try_block_def catch_clause_def)

theorem parse_failure_escapes_witness:
  "JSON_parse (sample_host []) ''not json'' = None
   \<and> processMessage (sample_host []) ''not json'' = Some (Inl (ReferenceError ''parsed''))
   \<and> on_data (sample_host []) (''not json'' @ [nl] @ list_request @ [nl])
       = ([Dispatched ''not json''], Unhandled (ReferenceError ''parsed''))"
proof -
  have nb: "nonblank ''not json''"
    by (simp add: nonblank_def trim_def js_whitespace_def)
  have s1: "split_nl ''not json'' = [''not json'']"
    by (simp add: split_nl_def nl_def)
  have "split_nl (''not json'' @ [nl] @ list_request @ [nl])
          = split_nl ''not json'' @ split_nl (list_request @ [nl])"
    using split_nl_append_nl [of "''not json''" "list_request @ [nl]"]
    by (simp only: append_Cons append_Nil)
  then have sp: "split_nl (''not json'' @ [nl] @ list_request @ [nl])
          = ''not json'' # split_nl (list_request @ [nl])"
    by (simp only: s1 append_Cons append_Nil)
  show ?thesis
    using parse_failure_escapes [OF sample_parse_garbage, of "[]" "split_nl (list_request @ [nl])"] nb sp
      sample_parse_garbage [of "[]"]
    by (simp add: on_data_def)
qed

text \<open>
  C3. A \<^verbatim>\<open>tools/call\<close> request that names a tool outside the registry should be answered
  with a not-found error carrying the request id. The code does not get there:
  \<^verbatim>\<open>handleToolCall\<close> throws, the \<^verbatim>\<open>catch\<close> clause of \<^verbatim>\<open>processMessage\<close> faults on
  \<^verbatim>\<open>parsed?.id\<close>, and the call rejects with a \<^verbatim>\<open>ReferenceError\<close>; no response is produced.
\<close>

theorem unknown_tool_escapes:
  assumes "JSON_parse h line = Some parsed"
    and "property parsed ''method'' = JStr ''tools/call''"
    and "\<not> nullish (property parsed ''params'')"
    and "property (property parsed ''params'') ''name'' \<notin> set tool_names"
  shows "processMessage h line = Some (Inl (ReferenceError ''parsed''))
         \<and> (nonblank line \<longrightarrow>
              for_lines h (line # rest) = ([Dispatched line], Unhandled (ReferenceError ''parsed'')))"
proof -
  have "\<not> nullish parsed"
    using assms(2) by (rule method_not_nullish)
  then have "processMessage h line = Some (Inl (ReferenceError ''parsed''))"
    using assms
    by (simp add: processMessage_def try_block_def catch_clause_def get_prop_def
        handleToolCall_unknown)
  then show ?thesis by simp
qed

theorem unknown_tool_escapes_witness:
  "processMessage (sample_host []) unknown_tool_request = Some (Inl (ReferenceError ''parsed''))"
proof -
  let ?parsed = "JObj [(''jsonrpc'', JStr ''2.0''), (''id'', JNum 2), (''method'', JStr ''tools/call''),
       (''params'', JObj [(''name'', JStr ''nonexistent_tool''), (''arguments'', JObj [])])]"
  have m: "property ?parsed ''method'' = JStr ''tools/call''" by simp
  have p: "\<not> nullish (property ?parsed ''params'')" by (simp add: nullish_def)
  have n: "property (property ?parsed ''params'') ''name'' \<notin> set tool_names"
    by (simp add: tool_names_eq)
  show ?thesis
    using unknown_tool_escapes [OF sample_parse_unknown_tool m p n, of "[]" "[]"] by simp
qed

text \<open>
  C7. The names of the registered descriptors are pairwise distinct (in the simple server
  and among the tools registered with the tool server), and a request whose method is
  \<^verbatim>\<open>tools/list\<close> is answered with a result response that carries the request's id and
  whose \<^verbatim>\<open>result.tools\<close> is the registry verbatim: the two descriptors set by the
  constructor.
\<close>

theorem tools_list_response:
  assumes "JSON_parse h line = Some parsed"
    and "property parsed ''method'' = JStr ''tools/list''"
  shows "processMessage h line =
           Some (Inr (JObj [(''jsonrpc'', JStr ''2.0''), (''id'', property parsed ''id''),
                            (''result'', JObj [(''tools'', JArr tools)])]))
         \<and> tools =
             [JObj [(''name'', JStr ''run_ui_tests''),
                    (''description'', JStr ''Run all Playwright UI tests with list reporter''),
                    (''inputSchema'', JObj [(''type'', JStr ''object''), (''properties'', JObj []),
                                            (''required'', JArr [])])],
              JObj [(''name'', JStr ''run_accessibility_tests''),
                    (''description'', JStr ''Run only accessibility tests with JSON reporter''),
                    (''inputSchema'', JObj [(''type'', JStr ''object''), (''properties'', JObj []),
                                            (''required'', JArr [])])]]
         \<and> tool_names = [JStr ''run_ui_tests'', JStr ''run_accessibility_tests'']
         \<and> distinct tool_names
         \<and> map fst registered =
             [''run_ui_tests'', ''run_accessibility_test'', ''security_audit'',
              ''github_workflow_validate'', ''code_quality_check'', ''performance_test'',
              ''docker_build_test'', ''rust_check'', ''rust_test'', ''rust_fmt_check'',
              ''tauri_build'', ''tauri_dev'', ''typescript_check'']
         \<and> distinct (map fst registered)"
proof -
  have "\<not> nullish parsed"
    using assms(2) by (rule method_not_nullish)
  then have "processMessage h line =
           Some (Inr (JObj [(''jsonrpc'', JStr ''2.0''), (''id'', property parsed ''id''),
                            (''result'', JObj [(''tools'', JArr tools)])]))"
    using assms by (simp add: processMessage_def try_block_def get_prop_def rpc_result_def)
  moreover have "tools =
             [JObj [(''name'', JStr ''run_ui_tests''),
                    (''description'', JStr ''Run all Playwright UI tests with list reporter''),
                    (''inputSchema'', JObj [(''type'', JStr ''object''), (''properties'', JObj []),
                                            (''required'', JArr [])])],
              JObj [(''name'', JStr ''run_accessibility_tests''),
                    (''description'', JStr ''Run only accessibility tests with JSON reporter''),
                    (''inputSchema'', JObj [(''type'', JStr ''object''), (''properties'', JObj []),
                                            (''required'', JArr [])])]]"
    by (simp add: tools_def tool_descriptor_def)
  moreover have "tool_names = [JStr ''run_ui_tests'', JStr ''run_accessibility_tests'']"
    by (rule tool_names_eq)
  moreover have "distinct tool_names"
    by (simp add: tool_names_eq)
  moreover have "map fst registered =
             [''run_ui_tests'', ''run_accessibility_test'', ''security_audit'',
              ''github_workflow_validate'', ''code_quality_check'', ''performance_test'',
              ''docker_build_test'', ''rust_check'', ''rust_test'', ''rust_fmt_check'',
              ''tauri_build'', ''tauri_dev'', ''typescript_check'']"
    by (simp add: registered_def)
  moreover have "distinct (map fst registered)"
    by (simp add: registered_def)
  ultimately show ?thesis by blast
qed

theorem tools_list_response_witness:
  "processMessage (sample_host []) list_request =
     Some (Inr (JObj [(''jsonrpc'', JStr ''2.0''), (''id'', JNum 1),
       (''result'', JObj [(''tools'', JArr
             [JObj [(''name'', JStr ''run_ui_tests''),
                    (''description'', JStr ''Run all Playwright UI tests with list reporter''),
                    (''inputSchema'', JObj [(''type'', JStr ''object''), (''properties'', JObj []),
                                            (''required'', JArr [])])],
              JObj [(''name'', JStr ''run_accessibility_tests''),
                    (''description'', JStr ''Run only accessibility tests with JSON reporter''),
                    (''inputSchema'', JObj [(''type'', JStr ''object''), (''properties'', JObj []),
                                            (''required'', JArr [])])]])])]))"
proof -
  let ?parsed = "JObj [(''jsonrpc'', JStr ''2.0''), (''id'', JNum 1), (''method'', JStr ''tools/list''),
                 (''params'', JObj [])]"
  have m: "property ?parsed ''method'' = JStr ''tools/list''" by simp
  have i: "property ?parsed ''id'' = JNum 1" by simp
  from tools_list_response [OF sample_parse_list m, of "[]"]
  have r: "processMessage (sample_host []) list_request =
           Some (Inr (JObj [(''jsonrpc'', JStr ''2.0''), (''id'', property ?parsed ''id''),
                            (''result'', JObj [(''tools'', JArr tools)])]))"
    and t: "tools =
             [JObj [(''name'', JStr ''run_ui_tests''),
                    (''description'', JStr ''Run all Playwright UI tests with list reporter''),
                    (''inputSchema'', JObj [(''type'', JStr ''object''), (''properties'', JObj []),
                                            (''required'', JArr [])])],
              JObj [(''name'', JStr ''run_accessibility_tests''),
                    (''description'', JStr ''Run only accessibility tests with JSON reporter''),
                    (''inputSchema'', JObj [(''type'', JStr ''object''), (''properties'', JObj []),
                                            (''required'', JArr [])])]]"
    by blast+
  show ?thesis
    by (simp only: r i t)
qed

text \<open>
  C8. A parsed request whose method is none of \<^verbatim>\<open>initialize\<close>, \<^verbatim>\<open>tools/list\<close> and
  \<^verbatim>\<open>tools/call\<close> is answered with the error response of code -32601, "Method not found",
  carrying the request's id.
\<close>

theorem method_not_found_response:
  assumes "JSON_parse h line = Some parsed"
    and "\<not> nullish parsed"
    and "property parsed ''method'' \<notin> {JStr ''initialize'', JStr ''tools/list'', JStr ''tools/call''}"
  shows "processMessage h line =
           Some (Inr (JObj [(''jsonrpc'', JStr ''2.0''), (''id'', property parsed ''id''),
                            (''error'', JObj [(''code'', JNum (- 32601)),
                                              (''message'', JStr ''Method not found'')])]))"
  using assms by (simp add: processMessage_def try_block_def get_prop_def rpc_error_def)

theorem method_not_found_response_witness:
  "processMessage (sample_host []) other_request =
     Some (Inr (JObj [(''jsonrpc'', JStr ''2.0''), (''id'', JNum 4),
                      (''error'', JObj [(''code'', JNum (- 32601)),
                                        (''message'', JStr ''Method not found'')])]))"
proof -
  let ?parsed = "JObj [(''jsonrpc'', JStr ''2.0''), (''id'', JNum 4), (''method'', JStr ''resources/list'')]"
  have n: "\<not> nullish ?parsed" by (simp add: nullish_def)
  have m: "property ?parsed ''method'' \<notin> {JStr ''initialize'', JStr ''tools/list'', JStr ''tools/call''}"
    by simp
  show ?thesis
    using method_not_found_response [OF sample_parse_other n m, of "[]"] by simp
qed

text \<open>
  C9. \<^verbatim>\<open>handleToolCall\<close> does not depend on the arguments it is passed: for every host (and
  so for every outcome of the external process), every name and any two argument values the
  result is the same.
\<close>

theorem handleToolCall_ignores_arguments:
  "handleToolCall h name args1 = handleToolCall h name args2"
  by (simp add: handleToolCall_def)

section \<open>The command executor\<close>

lemma validateProjectDir_throws:
  "validateProjectDir h projectDir = Inl (ReferenceError ''require'')"
  by (simp add: validateProjectDir_def module_scope_def)

lemma runPlaywrightTests_rejects:
  "runPlaywrightTests h projectDir options = Some (Inl (ReferenceError ''require''))"
  by (simp add: runPlaywrightTests_def validateProjectDir_throws)

text \<open>
  C4. A command that exits with status 0 should yield a payload without the failure flag
  that carries its standard output. The code does not get there: \<^verbatim>\<open>runPlaywrightTests\<close>
  rejects in \<^verbatim>\<open>validateProjectDir\<close>, on \<^verbatim>\<open>require\<close>, before it starts any command, and
  both tools return a payload with \<^verbatim>\<open>isError: true\<close> and a text about \<^verbatim>\<open>require\<close>,
  whatever the host and whatever the command would have done.
\<close>

theorem exit_zero_run_not_started:
  "runPlaywrightTests h projectDir options = Some (Inl (ReferenceError ''require''))
   \<and> handleToolCall h (JStr ''run_ui_tests'') args =
       Some (Inr (JObj [(''content'', JArr [JObj [(''type'', JStr ''text''), (''text'', JStr ''Error running UI tests: require is not defined'')]]),
                   (''isError'', JBool True)]))
   \<and> handleToolCall h (JStr ''run_accessibility_tests'') args =
       Some (Inr (JObj [(''content'', JArr [JObj [(''type'', JStr ''text''), (''text'', JStr ''Error running accessibility tests: require is not defined'')]]),
                   (''isError'', JBool True)]))"
  by (simp add: runPlaywrightTests_rejects handleToolCall_def text_block_def)

theorem exit_zero_run_not_started_witness:
  "path_kind (sample_host [StdoutData ''ok'', CloseEv (Some 0)])
       (project_dir (sample_host [StdoutData ''ok'', CloseEv (Some 0)])) = Directory
   \<and> spawn (sample_host [StdoutData ''ok'', CloseEv (Some 0)]) ''npx''
       [''playwright'', ''test'', ''--reporter'', ''list'', ''tests/ui.spec.ts'']
       (project_dir (sample_host [StdoutData ''ok'', CloseEv (Some 0)]))
     = [StdoutData ''ok'', CloseEv (Some 0)]
   \<and> await_child [] [] [StdoutData ''ok'', CloseEv (Some 0)] = Some (Inr ''ok'')
   \<and> handleToolCall (sample_host [StdoutData ''ok'', CloseEv (Some 0)]) (JStr ''run_ui_tests'') (JObj []) =
       Some (Inr (JObj [(''content'', JArr [JObj [(''type'', JStr ''text''), (''text'', JStr ''Error running UI tests: require is not defined'')]]),
                   (''isError'', JBool True)]))"
proof -
  have "await_child [] [] [StdoutData ''ok'', CloseEv (Some 0)] = Some (Inr ''ok'')"
    by (simp add: str_or_def)
  then show ?thesis
    using exit_zero_run_not_started [of "sample_host [StdoutData ''ok'', CloseEv (Some 0)]" _ _ "JObj []"]
    by (simp add: sample_project_dir sample_path_kind sample_spawn)
qed

text \<open>
  C5. A command that exits with a status other than 0 should yield a result response whose
  payload has the failure flag and a text drawn from its standard error. The code answers
  a \<^verbatim>\<open>tools/call\<close> for either tool with a result response that carries the request's id
  and has \<^verbatim>\<open>isError: true\<close>, but the text is the one about \<^verbatim>\<open>require\<close>: no command is
  started, and nothing of its streams reaches the payload.
\<close>

theorem failed_run_not_started:
  assumes "JSON_parse h line = Some parsed"
    and "property parsed ''method'' = JStr ''tools/call''"
    and "property (property parsed ''params'') ''name'' = JStr name"
    and "(name, label) \<in> {(''run_ui_tests'', ''UI''), (''run_accessibility_tests'', ''accessibility'')}"
  shows "processMessage h line =
           Some (Inr (JObj [(''jsonrpc'', JStr ''2.0''), (''id'', property parsed ''id''),
             (''result'',
              JObj [(''content'', JArr [JObj [(''type'', JStr ''text''), (''text'', JStr (''Error running '' @ label @ '' tests: require is not defined''))]]),
                   (''isError'', JBool True)])]))"
proof -
  have np: "\<not> nullish parsed"
    using assms(2) by (rule method_not_nullish)
  have npp: "\<not> nullish (property parsed ''params'')"
    using assms(3) by (rule method_not_nullish)
  have "handleToolCall h (JStr name) (property (property parsed ''params'') ''arguments'') =
      Some (Inr (JObj [(''content'', JArr [JObj [(''type'', JStr ''text''), (''text'', JStr (''Error running '' @ label @ '' tests: require is not defined''))]]),
                   (''isError'', JBool True)]))"
    using assms(4) by (auto simp add: runPlaywrightTests_rejects handleToolCall_def text_block_def)
  then show ?thesis
    using assms(1,2,3) np npp
    by (simp add: processMessage_def try_block_def get_prop_def rpc_result_def)
qed

theorem failed_run_not_started_witness:
  "spawn (sample_host [StderrData ''boom'', CloseEv (Some 1)]) ''npx''
       [''playwright'', ''test'', ''--reporter'', ''list'', ''tests/ui.spec.ts'']
       (project_dir (sample_host [StderrData ''boom'', CloseEv (Some 1)]))
     = [StderrData ''boom'', CloseEv (Some 1)]
   \<and> await_child [] [] [StderrData ''boom'', CloseEv (Some 1)] =
       Some (Inl (Error (''Playwright tests failed with code 1:'' @ [nl] @ ''boom'')))
   \<and> processMessage (sample_host [StderrData ''boom'', CloseEv (Some 1)]) ui_request =
       Some (Inr (JObj [(''jsonrpc'', JStr ''2.0''), (''id'', JNum 3),
         (''result'',
          JObj [(''content'', JArr [JObj [(''type'', JStr ''text''), (''text'', JStr ''Error running UI tests: require is not defined'')]]),
                   (''isError'', JBool True)])]))"
proof -
  let ?parsed = "JObj [(''jsonrpc'', JStr ''2.0''), (''id'', JNum 3), (''method'', JStr ''tools/call''),
       (''params'', JObj [(''name'', JStr ''run_ui_tests''), (''arguments'', JObj [])])]"
  have m: "property ?parsed ''method'' = JStr ''tools/call''" by simp
  have n: "property (property ?parsed ''params'') ''name'' = JStr ''run_ui_tests''" by simp
  have t: "(''run_ui_tests'', ''UI'') \<in>
      {(''run_ui_tests'', ''UI''), (''run_accessibility_tests'', ''accessibility'')}"
    by simp
  have a: "await_child [] [] [StderrData ''boom'', CloseEv (Some 1)] =
       Some (Inl (Error (''Playwright tests failed with code 1:'' @ [nl] @ ''boom'')))"
    by (simp add: show_code_def show_int_def show_nat.simps digits10_def str_or_def)
  show ?thesis
    using failed_run_not_started [OF sample_parse_ui m n t] a
    by (simp add: sample_project_dir sample_spawn)
qed

section \<open>The tool server\<close>

lemma registered_others:
  assumes "(name, handler) \<in> set registered" and "name \<noteq> ''security_audit''"
  shows "handler \<in> {run_ui_tests, run_accessibility_test, github_workflow_validate,
     code_quality_check, performance_test, docker_build_test, rust_check, rust_test,
     rust_fmt_check, tauri_build, tauri_dev, typescript_check}"
  using assms by (auto simp add: registered_def)

lemma on_exit_err: "err r \<noteq> None \<Longrightarrow> on_exit failed passed r = Rejected (text_payload (failed r))"
  by (simp add: on_exit_def)

lemma others_reject:
  assumes "handler \<in> {run_ui_tests, run_accessibility_test, github_workflow_validate,
     code_quality_check, performance_test, docker_build_test, rust_check, rust_test,
     rust_fmt_check, tauri_build, tauri_dev, typescript_check}"
    and "err r \<noteq> None"
  shows "\<exists>p. invoke (\<lambda>command. Some r) (handler args) = Some (Rejected p)"
proof -
  note e = on_exit_err [OF assms(2)]
  consider "handler = run_ui_tests" | "handler = run_accessibility_test"
    | "handler = github_workflow_validate" | "handler = code_quality_check"
    | "handler = performance_test" | "handler = docker_build_test" | "handler = rust_check"
    | "handler = rust_test" | "handler = rust_fmt_check" | "handler = tauri_build"
    | "handler = tauri_dev" | "handler = typescript_check"
    using assms(1) by auto
  then show ?thesis
  proof cases
    case 1
    then show ?thesis by (simp add: invoke_def e run_ui_tests_def Let_def)
  next
    case 2
    then show ?thesis by (simp add: invoke_def e run_accessibility_test_def Let_def)
  next
    case 3
    then show ?thesis by (simp add: invoke_def e github_workflow_validate_def Let_def)
  next
    case 4
    then show ?thesis by (simp add: invoke_def e code_quality_check_def Let_def)
  next
    case 5
    then show ?thesis by (simp add: invoke_def e performance_test_def Let_def)
  next
    case 6
    then show ?thesis by (simp add: invoke_def e docker_build_test_def Let_def)
  next
    case 7
    then show ?thesis by (simp add: invoke_def e rust_check_def Let_def)
  next
    case 8
    then show ?thesis by (simp add: invoke_def e rust_test_def Let_def)
  next
    case 9
    then show ?thesis by (simp add: invoke_def e rust_fmt_check_def Let_def)
  next
    case 10
    then show ?thesis by (simp add: invoke_def e tauri_build_def Let_def)
  next
    case 11
    then show ?thesis by (simp add: invoke_def e tauri_dev_def Let_def)
  next
    case 12
    then show ?thesis by (simp add: invoke_def e typescript_check_def Let_def)
  qed
qed

text \<open>
  C6. When the external command ends with exit status 1, the handler of \<^verbatim>\<open>security_audit\<close>
  resolves with a payload that has no failure flag and whose text is the command's standard
  output, or \<^verbatim>\<open>No security vulnerabilities found\<close> when that is empty; the handler of
  every other registered tool rejects. The exception is written in that one callback: the
  executor of the simple server, too, rejects on a close with status 1.
\<close>

theorem audit_exit_status_one:
  assumes "err r = Some (ExitStatus 1)"
  shows "(''security_audit'', security_audit) \<in> set registered
         \<and> invoke (\<lambda>command. Some r) (security_audit args) =
             Some (Resolved (JObj [(''content'', JArr [JObj [(''type'', JStr ''text''), (''text'', JStr (if stdout r = [] then ''No security vulnerabilities found'' else stdout r))]])]))
         \<and> (\<forall>(name, handler) \<in> set registered. name \<noteq> ''security_audit'' \<longrightarrow>
               (\<exists>p. invoke (\<lambda>command. Some r) (handler args') = Some (Rejected p)))
         \<and> await_child out eout (CloseEv (Some 1) # es) =
             Some (Inl (Error (''Playwright tests failed with code 1:'' @ [nl]
                               @ (if eout = [] then out else eout))))"
proof -
  have reg: "(''security_audit'', security_audit) \<in> set registered"
    by (simp add: registered_def)
  have audit: "invoke (\<lambda>command. Some r) (security_audit args) =
             Some (Resolved (JObj [(''content'', JArr [JObj [(''type'', JStr ''text''), (''text'', JStr (if stdout r = [] then ''No security vulnerabilities found'' else stdout r))]])]))"
    using assms by (simp add: invoke_def security_audit_def text_payload_def text_block_def str_or_def)
  have e: "err r \<noteq> None"
    using assms(1) by simp
  have others: "\<forall>(name, handler) \<in> set registered. name \<noteq> ''security_audit'' \<longrightarrow>
               (\<exists>p. invoke (\<lambda>command. Some r) (handler args') = Some (Rejected p))"
    using others_reject [OF registered_others e] by blast
  have "show_code (Some 1) = ''1''"
    by (simp add: show_code_def show_int_def show_nat.simps digits10_def)
  then have simple: "await_child out eout (CloseEv (Some 1) # es) =
             Some (Inl (Error (''Playwright tests failed with code 1:'' @ [nl]
                               @ (if eout = [] then out else eout))))"
    by (simp add: str_or_def)
  show ?thesis
    using reg audit others simple by blast
qed

theorem audit_exit_status_one_witness:
  "invoke (\<lambda>command. Some \<lparr>err = Some (ExitStatus 1), stdout = ''2 moderate'', stderr = ''warn''\<rparr>)
       (security_audit (\<lambda>k. None))
     = Some (Resolved (JObj [(''content'', JArr [JObj [(''type'', JStr ''text''), (''text'', JStr ''2 moderate'')]])]))
   \<and> invoke (\<lambda>command. Some \<lparr>err = Some (ExitStatus 1), stdout = [], stderr = ''warn''\<rparr>)
       (security_audit (\<lambda>k. None))
     = Some (Resolved (JObj [(''content'', JArr [JObj [(''type'', JStr ''text''), (''text'', JStr ''No security vulnerabilities found'')]])]))
   \<and> invoke (\<lambda>command. Some \<lparr>err = Some (ExitStatus 1), stdout = ''2 moderate'', stderr = ''warn''\<rparr>)
       (rust_check (\<lambda>k. None))
     = Some (Rejected (JObj [(''content'', JArr [JObj [(''type'', JStr ''text''), (''text'', JStr (''Rust check failed:'' @ [nl] @ ''warn''))]])]))"
proof -
  let ?r = "\<lparr>err = Some (ExitStatus 1), stdout = ''2 moderate'', stderr = ''warn''\<rparr>"
  let ?q = "\<lparr>err = Some (ExitStatus 1), stdout = [], stderr = ''warn''\<rparr>"
  have c: "err ?r = Some (ExitStatus 1)" "err ?q = Some (ExitStatus 1)" by simp_all
  have "invoke (\<lambda>command. Some ?r) (rust_check (\<lambda>k. None))
      = Some (Rejected (JObj [(''content'', JArr [JObj [(''type'', JStr ''text''), (''text'', JStr (''Rust check failed:'' @ [nl] @ ''warn''))]])]))"
    by (simp add: invoke_def rust_check_def on_exit_def opt_or_def Let_def text_payload_def
        text_block_def)
  then show ?thesis
    using audit_exit_status_one [OF c(1), of "\<lambda>k. None"]
      audit_exit_status_one [OF c(2), of "\<lambda>k. None"]
    by simp
qed

section \<open>The handler of one input event\<close>

lemma try_block_truthy: "try_block h line = Some (Inr r) \<Longrightarrow> truthy r"
  by (auto simp add: try_block_def rpc_result_def rpc_error_def
      split: option.splits sum.splits if_splits)

lemma processMessage_truthy: "processMessage h line = Some (Inr r) \<Longrightarrow> truthy r"
  by (auto simp add: processMessage_def catch_clause_def
      split: option.splits sum.splits dest: try_block_truthy)

lemma for_lines_trace:
  "fst (for_lines h ls) =
     concat (map (\<lambda>l. [Dispatched l, Wrote (answer h l)])
               (takeWhile (answered h) (filter nonblank ls)))
     @ (case dropWhile (answered h) (filter nonblank ls) of [] \<Rightarrow> [] | l # _ \<Rightarrow> [Dispatched l])"
proof (induction ls)
  case Nil
  then show ?case by simp
next
  case (Cons l ls)
  show ?case
  proof (cases "nonblank l")
    case False
    then show ?thesis using Cons by simp
  next
    case True
    show ?thesis
    proof (cases "processMessage h l")
      case None
      then show ?thesis using True by (simp add: answered_def)
    next
      case (Some s)
      show ?thesis
      proof (cases s)
        case (Inl e)
        then show ?thesis using True Some by (simp add: answered_def)
      next
        case (Inr r)
        then have t: "truthy r"
          using Some processMessage_truthy by blast
        obtain later fin where rest: "for_lines h ls = (later, fin)"
          by (cases "for_lines h ls")
        have a: "answered h l" "answer h l = r"
          using Some Inr by (simp_all add: answered_def answer_def)
        show ?thesis using True Some Inr Cons t rest a
          by simp
      qed
    qed
  qed
qed

text \<open>
  C10. The effects of the handler on one chunk, in order: for each message unit of the chunk
  in turn, the call of \<^verbatim>\<open>processMessage\<close> on it and then the write of its response, so that
  a response is written before the next unit is dispatched. Lines that are empty or white
  space are not units and contribute nothing. The sequence goes on as long as the calls
  return a response; at the first unit whose call does not, the call is the last effect.
\<close>

theorem on_data_sequential:
  "fst (on_data h chunk) =
     concat (map (\<lambda>l. [Dispatched l, Wrote (answer h l)])
               (takeWhile (answered h) (units chunk)))
     @ (case dropWhile (answered h) (units chunk) of [] \<Rightarrow> [] | l # _ \<Rightarrow> [Dispatched l])"
  by (simp add: on_data_def units_def for_lines_trace)

theorem on_data_sequential_witness:
  "fst (on_data (sample_host []) (list_request @ nl # '' '' @ nl # nl # other_request @ nl # []))
     = [Dispatched list_request,
        Wrote (rpc_result (JNum 1) (JObj [(''tools'', JArr tools)])),
        Dispatched other_request,
        Wrote (rpc_error (JNum 4) (- 32601) ''Method not found'')]"
proof -
  have nonl: "split_nl list_request = [list_request]" "split_nl other_request = [other_request]"
       "split_nl '' '' = ['' '']"
    by (simp_all add: split_nl_def list_request_def other_request_def nl_def)
  have nb: "nonblank list_request" "nonblank other_request" "\<not> nonblank '' ''" "\<not> nonblank []"
    by (simp_all add: nonblank_def trim_def js_whitespace_def list_request_def other_request_def)
  have single: "units list_request = [list_request]" "units other_request = [other_request]"
       "units '' '' = []"
    by (simp_all add: units_def nonl nb)
  have "units (list_request @ nl # '' '' @ nl # nl # other_request @ nl # [])
      = units list_request @ units '' '' @ units other_request @ units []"
    by (simp only: units_append_nl units_cons_nl)
  then have u: "units (list_request @ nl # '' '' @ nl # nl # other_request @ nl # [])
      = [list_request, other_request]"
    by (simp only: single units_Nil append_Nil append_Nil2 append_Cons)
  have p1: "processMessage (sample_host []) list_request
      = Some (Inr (rpc_result (JNum 1) (JObj [(''tools'', JArr tools)])))"
    by (simp add: processMessage_def try_block_def get_prop_def nullish_def sample_parse_list)
  have p4: "processMessage (sample_host []) other_request
      = Some (Inr (rpc_error (JNum 4) (- 32601) ''Method not found''))"
    by (simp add: processMessage_def try_block_def get_prop_def nullish_def sample_parse_other)
  have a: "answered (sample_host []) list_request" "answered (sample_host []) other_request"
      "answer (sample_host []) list_request = rpc_result (JNum 1) (JObj [(''tools'', JArr tools)])"
      "answer (sample_host []) other_request = rpc_error (JNum 4) (- 32601) ''Method not found''"
    by (simp_all add: answered_def answer_def p1 p4)
  have "fst (on_data (sample_host []) (list_request @ nl # '' '' @ nl # nl # other_request @ nl # []))
      = concat (map (\<lambda>l. [Dispatched l, Wrote (answer (sample_host []) l)])
               (takeWhile (answered (sample_host [])) [list_request, other_request]))
        @ (case dropWhile (answered (sample_host [])) [list_request, other_request] of
             [] \<Rightarrow> [] | l # _ \<Rightarrow> [Dispatched l])"
    using on_data_sequential [of "sample_host []"
        "list_request @ nl # '' '' @ nl # nl # other_request @ nl # []"]
    by (simp only: u)
  also have "\<dots> = [Dispatched list_request,
        Wrote (rpc_result (JNum 1) (JObj [(''tools'', JArr tools)])),
        Dispatched other_request,
        Wrote (rpc_error (JNum 4) (- 32601) ''Method not found'')]"
    by (simp add: a)
  finally show ?thesis .
qed

end
